theory Spec2Isabelle
  imports Main "HOL-Library.Word"
begin

unbundle bit_operations_syntax

section \<open>Values shared by both modules\<close>

text \<open>
  Python \<open>bytes\<close> are lists of 8-bit words, Python \<open>str\<close> values are HOL strings.
  Every exception the two modules can meet is a constructor of \<open>py_exception\<close>; a
  function that may raise returns \<open>py_exception + 'a\<close>, with \<open>Inl\<close> for the raise.
\<close>

type_synonym bytes = "8 word list"

datatype py_exception =
    BadSignatureError  \<comment> \<open>\<open>nacl.exceptions.BadSignatureError\<close>\<close>
  | Binascii_Error     \<comment> \<open>\<open>binascii.Error\<close>, raised by \<open>b64decode\<close>\<close>
  | ValueError
  | TypeError
  | GLib_Error         \<comment> \<open>raised by the \<open>..._finish\<close> calls of NetworkManager\<close>
  | Plain_Exception    \<comment> \<open>\<open>raise Exception(...)\<close>\<close>

section \<open>crypto.py: signature validation\<close>

subsection \<open>The library primitives \<open>validate\<close> is written against\<close>

text \<open>
  \<open>validate\<close> and \<open>make_verifiers\<close> call three library functions and read one constant
  of \<open>eduvpn.settings\<close>. None of them is part of the two source files, so they are the
  fields of an environment record that the model takes as a parameter:
  \<^item> \<open>b64decode\<close>: \<open>base64.b64decode\<close> on a \<open>str\<close>;
  \<^item> \<open>VerifyKey\<close>: the constructor \<open>nacl.signing.VerifyKey(key)\<close>;
  \<^item> \<open>verify\<close>: \<open>VerifyKey.verify(smessage=..., signature=...)\<close>, which returns the
    message or raises;
  \<^item> \<open>VERIFY_KEYS\<close>: the list of trusted keys in minisign format.
\<close>

record 'vk crypto_env =
  b64decode :: "string \<Rightarrow> py_exception + bytes"
  VerifyKey :: "bytes \<Rightarrow> py_exception + 'vk"
  verify :: "'vk \<Rightarrow> bytes \<Rightarrow> bytes \<Rightarrow> py_exception + bytes"
  VERIFY_KEYS :: "string list"

text \<open>The three \<open>logger.debug\<close> lines of \<open>validate\<close>, in the order they are written.\<close>

datatype 'vk crypto_log =
    Trying nat      \<comment> \<open>\<open>Trying {len(verifiers)} verifiers\<close>\<close>
  | Used 'vk        \<comment> \<open>\<open>Used signature {f}\<close>\<close>
  | Skipping 'vk    \<comment> \<open>\<open>Skipping signature {f}\<close>\<close>

subsection \<open>\<open>make_verifiers\<close>\<close>

text \<open>
  \<open>[VerifyKey(b64decode(k)[10:]) for k in VERIFY_KEYS]\<close>: the comprehension builds the
  list front to back and stops at the first key whose decoding or construction raises.
  The function reads a constant only, so the \<open>lru_cache(1)\<close> around it cannot be observed
  and the model is the plain function.
\<close>

fun make_verifiers_of :: "'vk crypto_env \<Rightarrow> string list \<Rightarrow> py_exception + 'vk list" where
  "make_verifiers_of E [] = Inr []"
| "make_verifiers_of E (k # ks) =
     (case b64decode E k of
        Inl e \<Rightarrow> Inl e
      | Inr blob \<Rightarrow>
          (case VerifyKey E (drop 10 blob) of
             Inl e \<Rightarrow> Inl e
           | Inr v \<Rightarrow>
               (case make_verifiers_of E ks of
                  Inl e \<Rightarrow> Inl e
                | Inr vs \<Rightarrow> Inr (v # vs))))"

definition make_verifiers :: "'vk crypto_env \<Rightarrow> py_exception + 'vk list" where
  "make_verifiers E = make_verifiers_of E (VERIFY_KEYS E)"

subsection \<open>\<open>validate\<close>\<close>

text \<open>
  The \<open>for f in verifiers\<close> loop. A verifier that returns ends the loop with its message;
  one that raises \<open>BadSignatureError\<close> is skipped; any other exception is not caught and
  leaves the function. The loop falling through is \<open>raise BadSignatureError\<close>.
  The result is the log written so far and the outcome.
\<close>

fun try_verifiers ::
  "'vk crypto_env \<Rightarrow> 'vk list \<Rightarrow> bytes \<Rightarrow> bytes \<Rightarrow> 'vk crypto_log list \<times> (py_exception + bytes)"
where
  "try_verifiers E [] content decoded = ([], Inl BadSignatureError)"
| "try_verifiers E (f # fs) content decoded =
     (case verify E f content decoded of
        Inr message \<Rightarrow> ([Used f], Inr message)
      | Inl e \<Rightarrow>
          if e = BadSignatureError
          then (case try_verifiers E fs content decoded of
                  (lg, r) \<Rightarrow> (Skipping f # lg, r))
          else ([], Inl e))"

definition validate ::
  "'vk crypto_env \<Rightarrow> string \<Rightarrow> bytes \<Rightarrow> 'vk crypto_log list \<times> (py_exception + bytes)"
where
  "validate E signature content =
     (case b64decode E signature of
        Inl e \<Rightarrow> ([], Inl e)
      | Inr blob \<Rightarrow>
          (let decoded = drop 10 blob in
           case make_verifiers E of
             Inl e \<Rightarrow> ([], Inl e)
           | Inr verifiers \<Rightarrow>
               (case try_verifiers E verifiers content decoded of
                  (lg, r) \<Rightarrow> (Trying (length verifiers) # lg, r))))"

subsection \<open>A concrete environment\<close>

text \<open>
  \<open>base64.b64decode(s)\<close> with its default \<open>validate=False\<close>, after CPython's
  \<open>binascii.a2b_base64\<close> in non-strict mode: a character outside the alphabet is
  skipped, a pad character ends the input once it completes a quad, and input that
  stops inside a quad raises \<open>binascii.Error\<close>. A \<open>str\<close> with a non-ASCII character
  raises \<open>ValueError\<close> before decoding starts.
\<close>

definition table_a2b_base64 :: "char \<Rightarrow> 8 word option" where
  "table_a2b_base64 c =
     (let n = (of_char c :: nat) in
      if 65 \<le> n \<and> n \<le> 90 then Some (of_nat (n - 65))
      else if 97 \<le> n \<and> n \<le> 122 then Some (of_nat (n - 71))
      else if 48 \<le> n \<and> n \<le> 57 then Some (of_nat (n + 4))
      else if n = 43 then Some 62
      else if n = 47 then Some 63
      else None)"

fun a2b_base64 :: "nat \<Rightarrow> 8 word \<Rightarrow> nat \<Rightarrow> bytes \<Rightarrow> string \<Rightarrow> py_exception + bytes" where
  "a2b_base64 quad_pos leftchar pads bin_data [] =
     (if quad_pos \<noteq> 0 then Inl Binascii_Error else Inr bin_data)"
| "a2b_base64 quad_pos leftchar pads bin_data (this_ch # rest) =
     (if this_ch = CHR ''='' then
        (if 2 \<le> quad_pos \<and> 4 \<le> quad_pos + (pads + 1) then Inr bin_data
         else a2b_base64 quad_pos leftchar (if 2 \<le> quad_pos then pads + 1 else pads)
                bin_data rest)
      else
        (case table_a2b_base64 this_ch of
           None \<Rightarrow> a2b_base64 quad_pos leftchar pads bin_data rest
         | Some v \<Rightarrow>
             if quad_pos = 0 then a2b_base64 1 v 0 bin_data rest
             else if quad_pos = 1 then
               a2b_base64 2 (v AND 0x0f) 0
                 (bin_data @ [push_bit 2 leftchar OR drop_bit 4 v]) rest
             else if quad_pos = 2 then
               a2b_base64 3 (v AND 0x03) 0
                 (bin_data @ [push_bit 4 leftchar OR drop_bit 2 v]) rest
             else
               a2b_base64 0 0 0 (bin_data @ [push_bit 6 leftchar OR v]) rest))"

definition py_b64decode :: "string \<Rightarrow> py_exception + bytes" where
  "py_b64decode s =
     (if \<exists>c \<in> set s. 128 \<le> (of_char c :: nat) then Inl ValueError
      else a2b_base64 0 0 0 [] s)"

text \<open>
  \<open>nacl.signing.VerifyKey(key)\<close> keeps the key bytes and raises \<open>ValueError\<close> unless
  there are exactly 32 of them.
\<close>

definition nacl_VerifyKey :: "bytes \<Rightarrow> py_exception + bytes" where
  "nacl_VerifyKey key = (if length key \<noteq> 32 then Inl ValueError else Inr key)"

text \<open>
  Ed25519 itself is not modelled. For the concrete examples a stand-in keeps the shape
  of \<open>VerifyKey.verify\<close> with a detached signature: it returns \<open>smessage\<close> when the check
  passes and raises \<open>BadSignatureError\<close> when it does not; like PyNaCl from version
  1.4 on it raises \<open>ValueError\<close> for a signature that is not 64 bytes long. The
  stand-in's check accepts a signature whose first 32 bytes are the key.
\<close>

definition standin_verify :: "bytes \<Rightarrow> bytes \<Rightarrow> bytes \<Rightarrow> py_exception + bytes" where
  "standin_verify key smessage signature =
     (if length signature \<noteq> 64 then Inl ValueError
      else if take 32 signature = key then Inr smessage
      else Inl BadSignatureError)"

definition example_env :: "string list \<Rightarrow> bytes crypto_env" where
  "example_env keys =
     \<lparr> b64decode = py_b64decode, VerifyKey = nacl_VerifyKey,
       verify = standin_verify, VERIFY_KEYS = keys \<rparr>"

section \<open>nm.py: the connection life cycle against NetworkManager\<close>

subsection \<open>Data\<close>

text \<open>
  An \<open>NM.Connection\<close> is its settings; the model keeps the UUID and the VPN data items.
  The client's remote connection objects are the list \<open>connections\<close> of the state, and
  an object is named by its position in that list.
\<close>

record settings =
  con_uuid :: string
  vpn_data :: "(string \<times> string) list"

text \<open>
  An active connection as the two interfaces show it: the \<open>NM.ActiveConnection\<close> object
  (\<open>get_uuid\<close>, \<open>get_state\<close>, \<open>get_state_reason\<close>, and whether its type is
  \<open>NM.VpnConnection\<close>) and the D-Bus properties \<open>Id\<close>, \<open>Vpn\<close> and \<open>VpnState\<close>.
\<close>

record active_connection =
  ac_id :: string
  ac_uuid :: string
  ac_vpn :: bool
  ac_state :: nat
  ac_state_reason :: nat
  ac_vpn_state :: nat

text \<open>
  A value of one of NetworkManager's enumerations is its number tagged with the
  enumeration, so that \<open>NM.VpnConnectionStateReason(raw)\<close> is the constructor applied to
  the raw number.
\<close>

datatype nm_enum =
    VpnConnectionState nat
  | VpnConnectionStateReason nat
  | ActiveConnectionState nat
  | ActiveConnectionStateReason nat

definition VpnConnectionState_UNKNOWN :: nm_enum where
  "VpnConnectionState_UNKNOWN = VpnConnectionState 0"

definition VpnConnectionState_DISCONNECTED :: nm_enum where
  "VpnConnectionState_DISCONNECTED = VpnConnectionState 7"

definition VpnConnectionStateReason_UNKNOWN :: nm_enum where
  "VpnConnectionStateReason_UNKNOWN = VpnConnectionStateReason 0"

definition VpnConnectionStateReason_NONE :: nm_enum where
  "VpnConnectionStateReason_NONE = VpnConnectionStateReason 1"

text \<open>
  A caller-supplied callback is a name; calling it appends the name and the arguments
  to \<open>calls\<close>. An asynchronous request handed to NetworkManager is kept in \<open>requests\<close>
  with the \<open>user_data\<close> it carries; a function given to \<open>GLib.idle_add\<close> is kept in
  \<open>idle_sources\<close>. The log keeps the level and the format string of each logger call.
\<close>

type_synonym callback = nat

datatype cb_arg =
    Arg_bool bool
  | Arg_enum nm_enum
  | Arg_result "py_exception + bool"

datatype request =
    Add_connection settings "callback option"
  | Commit_changes nat "callback option"
  | Activate_connection nat "callback option"
  | Deactivate_connection active_connection "callback option"

datatype idle_task = Retry_activate_connection string

datatype log_level = DEBUG | INFO | WARNING | ERROR

record nm_state =
  stored_uuid :: "string option"
  connections :: "settings list"
  primary_connection :: "active_connection option"
  active_connections :: "active_connection list"
  requests :: "request list"
  idle_sources :: "idle_task list"
  slept_ms :: nat
  calls :: "(callback \<times> cb_arg list) list"
  signal_receivers :: "callback list"
  nm_log :: "(log_level \<times> string) list"

definition log_line :: "log_level \<Rightarrow> string \<Rightarrow> nm_state \<Rightarrow> nm_state" where
  "log_line level msg s = s\<lparr>nm_log := nm_log s @ [(level, msg)]\<rparr>"

definition call :: "callback \<Rightarrow> cb_arg list \<Rightarrow> nm_state \<Rightarrow> nm_state" where
  "call cb args s = s\<lparr>calls := calls s @ [(cb, args)]\<rparr>"

subsection \<open>The collaborators\<close>

text \<open>
  Modelled from the spec: the persisted identifier store of \<open>eduvpn.storage\<close>
  (\<open>get_uuid\<close>, \<open>set_uuid\<close>) is not among the source files. The spec gives it as
  \<open>get() -> id|None\<close> and \<open>set(id)\<close>: one stored value, replaced by each \<open>set\<close>.
\<close>

definition get_uuid :: "nm_state \<Rightarrow> string option" where
  "get_uuid s = stored_uuid s"

definition set_uuid :: "string \<Rightarrow> nm_state \<Rightarrow> nm_state" where
  "set_uuid uuid s = s\<lparr>stored_uuid := Some uuid\<rparr>"

text \<open>
  \<open>client.get_connection_by_uuid(uuid)\<close>: the first remote connection object with that
  UUID, or \<open>None\<close>.
\<close>

fun index_of_uuid :: "string \<Rightarrow> settings list \<Rightarrow> nat \<Rightarrow> nat option" where
  "index_of_uuid uuid [] i = None"
| "index_of_uuid uuid (c # cs) i =
     (if con_uuid c = uuid then Some i else index_of_uuid uuid cs (Suc i))"

definition get_connection_by_uuid :: "nm_state \<Rightarrow> string \<Rightarrow> nat option" where
  "get_connection_by_uuid s uuid = index_of_uuid uuid (connections s) 0"

definition get_primary_connection :: "nm_state \<Rightarrow> active_connection option" where
  "get_primary_connection s = primary_connection s"

text \<open>
  What \<open>import_ovpn\<close> reaches outside the module: the VPN plugins that
  \<open>NM.VpnPluginInfo.list_load()\<close> returns, each with its name and its editor plugin's
  \<open>import_\<close> (which reads the file and may raise), and \<open>write_config\<close> of
  \<open>eduvpn.storage\<close>, taken as the file content it writes.
\<close>

record nm_env =
  vpn_plugins :: "(string \<times> (string \<Rightarrow> py_exception + settings)) list"
  write_config :: "string \<Rightarrow> string \<Rightarrow> string \<Rightarrow> string"

subsection \<open>Importing and saving a connection\<close>

text \<open>
  \<open>nm_ovpn_import\<close> wants exactly one plugin named \<open>openvpn\<close>; the connection its
  \<open>import_\<close> returns is taken as already normalised. The temporary directory of
  \<open>import_ovpn\<close> is created and removed again and leaves no trace in the state.
\<close>

definition nm_ovpn_import :: "nm_env \<Rightarrow> string \<Rightarrow> py_exception + settings" where
  "nm_ovpn_import env target =
     (let vpn_infos = filter (\<lambda>i. fst i = ''openvpn'') (vpn_plugins env) in
      case vpn_infos of
        [i] \<Rightarrow> snd i target
      | _ \<Rightarrow> Inl Plain_Exception)"

definition import_ovpn :: "nm_env \<Rightarrow> string \<Rightarrow> string \<Rightarrow> string \<Rightarrow> py_exception + settings" where
  "import_ovpn env config private_key certificate =
     nm_ovpn_import env (write_config env config private_key certificate)"

text \<open>
  \<open>add_connection_callback(client, result, callback)\<close>: \<open>result\<close> is what
  \<open>add_connection_finish\<close> does with it, raise or return the new remote connection.
\<close>

definition add_connection_callback ::
  "nm_state \<Rightarrow> py_exception + settings \<Rightarrow> callback option \<Rightarrow> py_exception + nm_state"
where
  "add_connection_callback s result callback =
     (case result of
        Inl e \<Rightarrow> Inl e
      | Inr new_con \<Rightarrow>
          (let s1 = set_uuid (con_uuid new_con) s;
               s2 = log_line INFO ''Connection added for uuid: {get_uuid()}'' s1
           in Inr (case callback of
                     None \<Rightarrow> s2
                   | Some cb \<Rightarrow> call cb [Arg_bool True] s2)))"

definition add_connection :: "nm_state \<Rightarrow> settings \<Rightarrow> callback option \<Rightarrow> nm_state" where
  "add_connection s connection callback =
     (let s1 = log_line INFO ''Adding new connection'' s
      in s1\<lparr>requests := requests s1 @ [Add_connection connection callback]\<rparr>)"

definition update_connection_callback ::
  "nm_state \<Rightarrow> py_exception + bool \<Rightarrow> callback option \<Rightarrow> py_exception + nm_state"
where
  "update_connection_callback s result callback =
     (case result of
        Inl e \<Rightarrow> Inl e
      | Inr res \<Rightarrow>
          (let s1 = log_line DEBUG
                 ''Connection updated for uuid: {get_uuid()}, result: {res}, remote_con: {remote_connection}'' s
           in Inr (case callback of
                     None \<Rightarrow> s1
                   | Some cb \<Rightarrow> call cb [Arg_result result] s1)))"

definition update_connection ::
  "nm_state \<Rightarrow> nat \<Rightarrow> settings \<Rightarrow> callback option \<Rightarrow> nm_state"
where
  "update_connection s old_con new_con callback =
     (let s1 = log_line INFO ''Updating existing connection with new configuration'' s;
          s2 = s1\<lparr>connections := (connections s1)[old_con := new_con]\<rparr>
      in s2\<lparr>requests := requests s2 @ [Commit_changes old_con callback]\<rparr>)"

definition save_connection ::
  "nm_env \<Rightarrow> nm_state \<Rightarrow> string \<Rightarrow> string \<Rightarrow> string \<Rightarrow> callback option
     \<Rightarrow> py_exception + nm_state"
where
  "save_connection env s config private_key certificate callback =
     (let s1 = log_line INFO ''writing configuration to Network Manager'' s in
      case import_ovpn env config private_key certificate of
        Inl e \<Rightarrow> Inl e
      | Inr new_con \<Rightarrow>
          (case get_uuid s1 of
             None \<Rightarrow> Inr (add_connection s1 new_con callback)
           | Some uuid \<Rightarrow>
               if uuid \<noteq> [] then
                 (case get_connection_by_uuid s1 uuid of
                    Some old_con \<Rightarrow> Inr (update_connection s1 old_con new_con callback)
                  | None \<Rightarrow> Inr (add_connection s1 new_con callback))
               else Inr (add_connection s1 new_con callback)))"

subsection \<open>Activating and deactivating\<close>

text \<open>
  \<open>time.sleep(.1)\<close> adds 100 to \<open>slept_ms\<close>. The function handed to \<open>GLib.idle_add\<close>
  is \<open>lambda: activate_connection(client, uuid)\<close>: it carries the UUID and no callback.
\<close>

definition activate_connection :: "nm_state \<Rightarrow> string \<Rightarrow> callback option \<Rightarrow> nm_state" where
  "activate_connection s uuid callback =
     (let con = get_connection_by_uuid s uuid;
          s1 = log_line INFO ''activate_connection uuid: {uuid} connection: {con}'' s
      in case con of
           None \<Rightarrow>
             (let s2 = s1\<lparr>slept_ms := slept_ms s1 + 100\<rparr>
              in s2\<lparr>idle_sources := idle_sources s2 @ [Retry_activate_connection uuid]\<rparr>)
         | Some c \<Rightarrow> s1\<lparr>requests := requests s1 @ [Activate_connection c callback]\<rparr>)"

text \<open>
  \<open>activate_connection_callback(a_client, res, callback)\<close>; \<open>res\<close> is what
  \<open>activate_connection_finish\<close> does with it. The \<open>finally\<close> clause runs on both paths.
\<close>

definition activate_connection_callback ::
  "nm_state \<Rightarrow> py_exception + active_connection \<Rightarrow> callback option \<Rightarrow> nm_state"
where
  "activate_connection_callback s res callback =
     (let s1 = (case res of
                  Inl e \<Rightarrow> log_line ERROR ''{e}'' s
                | Inr result \<Rightarrow> log_line INFO ''activate_connection_async result: {result}'' s)
      in case callback of
           None \<Rightarrow> s1
         | Some cb \<Rightarrow> call cb [] s1)"

text \<open>
  One turn of the GLib main loop on the idle sources: the oldest one runs. The lambda
  returns \<open>None\<close>, so its source is removed when it has run.
\<close>

definition idle_dispatch :: "nm_state \<Rightarrow> nm_state" where
  "idle_dispatch s =
     (case idle_sources s of
        [] \<Rightarrow> s
      | Retry_activate_connection uuid # rest \<Rightarrow>
          activate_connection (s\<lparr>idle_sources := rest\<rparr>) uuid None)"

definition deactivate_connection :: "nm_state \<Rightarrow> string \<Rightarrow> callback option \<Rightarrow> nm_state" where
  "deactivate_connection s uuid callback =
     (let con = get_primary_connection s;
          s1 = log_line DEBUG ''deactivate_connection uuid: {uuid} connection: {con}'' s
      in case con of
           Some c \<Rightarrow>
             (let active_uuid = ac_uuid c in
              if uuid = active_uuid
              then s1\<lparr>requests := requests s1 @ [Deactivate_connection c callback]\<rparr>
              else s1)
         | None \<Rightarrow> log_line INFO ''No active connection to deactivate'' s1)"

definition on_deactivate_connection ::
  "nm_state \<Rightarrow> py_exception + bool \<Rightarrow> callback option \<Rightarrow> nm_state"
where
  "on_deactivate_connection s res callback =
     (let s1 = (case res of
                  Inl e \<Rightarrow> log_line ERROR ''{e}'' s
                | Inr result \<Rightarrow> log_line INFO ''deactivate_connection_async result: {result}'' s)
      in case callback of
           None \<Rightarrow> s1
         | Some cb \<Rightarrow> call cb [] s1)"

subsection \<open>Observing the state\<close>

definition connection_status :: "nm_state \<Rightarrow> string option \<times> nm_enum option" where
  "connection_status s =
     (case get_primary_connection s of
        None \<Rightarrow> (None, None)
      | Some con \<Rightarrow>
          if \<not> ac_vpn con then (None, None)
          else (Some (ac_uuid con), Some (ActiveConnectionState (ac_state con))))"

text \<open>
  The \<open>for a in active\<close> loop of \<open>init_dbus_system_bus\<close>: the first active connection
  whose \<open>Vpn\<close> property is true is reported and the function returns; the line after
  the loop reports \<open>DISCONNECTED\<close>.
\<close>

fun report_active :: "active_connection list \<Rightarrow> callback \<Rightarrow> nm_state \<Rightarrow> nm_state" where
  "report_active [] callback s =
     call callback [Arg_enum VpnConnectionState_DISCONNECTED,
                    Arg_enum VpnConnectionStateReason_NONE] s"
| "report_active (a # active) callback s =
     (if ac_vpn a then
        (let vpn_state_raw = ac_vpn_state a;
             vpn_state = VpnConnectionStateReason vpn_state_raw;
             s1 = log_line DEBUG ''Id: {vpn_id} VpnState: {vpn_state}'' s
         in call callback [Arg_enum vpn_state, Arg_enum VpnConnectionStateReason_NONE] s1)
      else report_active active callback s)"

definition init_dbus_system_bus :: "nm_state \<Rightarrow> callback \<Rightarrow> nm_state" where
  "init_dbus_system_bus s callback =
     (let s1 = s\<lparr>signal_receivers := signal_receivers s @ [callback]\<rparr>;
          active = active_connections s1
      in report_active active callback s1)"

definition get_vpn_status :: "nm_state \<Rightarrow> nm_state \<times> (nm_enum \<times> nm_enum)" where
  "get_vpn_status s =
     (let vpns = filter ac_vpn (active_connections s) in
      if 1 < length vpns then
        (log_line WARNING ''more than one VPN connection active'' s,
         (VpnConnectionState_UNKNOWN, VpnConnectionStateReason_UNKNOWN))
      else if length vpns = 0 then
        (s, (VpnConnectionState_UNKNOWN, VpnConnectionStateReason_UNKNOWN))
      else
        (s, (ActiveConnectionState (ac_state (vpns ! 0)),
             ActiveConnectionStateReason (ac_state_reason (vpns ! 0)))))"

subsection \<open>Concrete states for the examples\<close>

definition nm0 :: nm_state where
  "nm0 = \<lparr> stored_uuid = None, connections = [], primary_connection = None,
           active_connections = [], requests = [], idle_sources = [], slept_ms = 0,
           calls = [], signal_receivers = [], nm_log = [] \<rparr>"

definition vpn_active :: "string \<Rightarrow> nat \<Rightarrow> active_connection" where
  "vpn_active uuid raw =
     \<lparr> ac_id = ''eduVPN'', ac_uuid = uuid, ac_vpn = True, ac_state = 2,
       ac_state_reason = 1, ac_vpn_state = raw \<rparr>"

definition example_nm_env :: nm_env where
  "example_nm_env =
     \<lparr> vpn_plugins =
         [(''openvpn'', \<lambda>target. Inr \<lparr> con_uuid = ''new'', vpn_data = [(''file'', target)] \<rparr>)],
       write_config = (\<lambda>config private_key certificate. config @ private_key @ certificate) \<rparr>"

subsection \<open>Concrete keys and envelopes for the examples\<close>

text \<open>
  Two trusted keys in minisign format, \<open>base64(b'Ed' + key_id + public_key)\<close>, and two
  signature envelopes of 74 bytes: one that the stand-in accepts under \<open>key_B\<close>, one
  that it accepts under neither key. \<open>key_A\<close> is the bytes 1 to 32, \<open>key_B\<close> the bytes
  101 to 132; the two blobs are what the two envelopes decode to.
\<close>

definition key_A :: bytes where
  "key_A = map of_nat [1..<33]"

definition key_B :: bytes where
  "key_B = map of_nat [101..<133]"

definition example_keys :: "string list" where
  "example_keys =
     [''RWQKCgoKCgoKCgECAwQFBgcICQoLDA0ODxAREhMUFRYXGBkaGxwdHh8g'',
      ''RWQLCwsLCwsLC2VmZ2hpamtsbW5vcHFyc3R1dnd4eXp7fH1+f4CBgoOE'']"

definition signature_by_B :: string where
  "signature_by_B =
     ''RWQLCwsLCwsLC2VmZ2hpamtsbW5vcHFyc3R1dnd4eXp7fH1+f4CBgoOEyMnKy8zNzs/Q0dLT1NXW19jZ2tvc3d7f4OHi4+Tl5uc=''"


definition blob_by_B :: bytes where
  "blob_by_B = [69, 100] @ replicate 8 11 @ key_B @ map of_nat [200..<232]"


section \<open>Signature validation: what the loop guarantees\<close>

lemma try_verifiers_prefix_rejects:
  "\<forall>u \<in> set pre. verify E u content raw = Inl BadSignatureError \<Longrightarrow>
   verify E v content raw = Inr m \<Longrightarrow>
   try_verifiers E (pre @ v # post) content raw = (map Skipping pre @ [Used v], Inr m)"
  by (induction pre) simp_all


lemma example_anchors: "make_verifiers (example_env example_keys) = Inr [key_A, key_B]"
  by code_simp

lemma decode_signature_by_B:
  "b64decode (example_env example_keys) signature_by_B = Inr blob_by_B"
  by code_simp


text \<open>
  Claim C1. Let the envelope decode to \<open>blob\<close>, let \<open>vs\<close> be the anchor list that
  \<open>make_verifiers\<close> builds, and let the primitive keep its contract on these anchors:
  it either returns the signed payload or raises \<open>BadSignatureError\<close>. If some anchor
  verifies \<open>content\<close> against the raw signature \<open>blob[10:]\<close>, then \<open>validate\<close> returns
  \<open>content\<close> unchanged, and its log shows that every anchor before the first verifying
  one was skipped and that the first verifying one was used.
\<close>

theorem validate_first_verifying_anchor_wins:
  assumes dec: "b64decode E signature = Inr blob"
    and anchors: "make_verifiers E = Inr vs"
    and contract: "\<forall>v \<in> set vs.
        verify E v content (drop 10 blob) = Inr content \<or>
        verify E v content (drop 10 blob) = Inl BadSignatureError"
    and some: "\<exists>v \<in> set vs. verify E v content (drop 10 blob) = Inr content"
  shows "validate E signature content =
    (Trying (length vs)
       # map Skipping (takeWhile (\<lambda>v. verify E v content (drop 10 blob) \<noteq> Inr content) vs)
       @ [Used (hd (dropWhile (\<lambda>v. verify E v content (drop 10 blob) \<noteq> Inr content) vs))],
     Inr content)"
proof -
  let ?raw = "drop 10 blob"
  let ?rejects = "\<lambda>v. verify E v content ?raw \<noteq> Inr content"
  let ?pre = "takeWhile ?rejects vs"
  let ?rest = "dropWhile ?rejects vs"
  from some have "?rest \<noteq> []"
    by (auto simp: dropWhile_eq_Nil_conv)
  then obtain v post where rest: "?rest = v # post"
    by (cases ?rest) auto
  then have v_ok: "verify E v content ?raw = Inr content"
    using hd_dropWhile [of ?rejects vs] by auto
  have split: "vs = ?pre @ v # post"
    using rest takeWhile_dropWhile_id [of ?rejects vs] by simp
  have "\<forall>u \<in> set ?pre. verify E u content ?raw = Inl BadSignatureError"
  proof
    fix u assume u: "u \<in> set ?pre"
    then have "?rejects u" by (rule set_takeWhileD [THEN conjunct2])
    moreover from u have "u \<in> set vs" by (rule set_takeWhileD [THEN conjunct1])
    ultimately show "verify E u content ?raw = Inl BadSignatureError"
      using contract by blast
  qed
  then have "try_verifiers E (?pre @ v # post) content ?raw
      = (map Skipping ?pre @ [Used v], Inr content)"
    using v_ok by (rule try_verifiers_prefix_rejects)
  then have "try_verifiers E vs content ?raw
      = (map Skipping ?pre @ [Used (hd ?rest)], Inr content)"
    using split rest by simp
  then show ?thesis
    using dec anchors by (simp add: validate_def)
qed

text \<open>
  The spec's scenario: anchors \<open>[A, B]\<close>, envelope accepted under \<open>B\<close>. \<open>A\<close> is tried
  and skipped, \<open>B\<close> is used, the message comes back.
\<close>

theorem validate_first_verifying_anchor_wins_witness:
  "validate (example_env example_keys) signature_by_B [1, 2, 3] =
     ([Trying 2, Skipping key_A, Used key_B], Inr [1, 2, 3])"
proof -
  let ?E = "example_env example_keys"
  have contract: "\<forall>v \<in> set [key_A, key_B].
        verify ?E v [1, 2, 3] (drop 10 blob_by_B) = Inr [1, 2, 3] \<or>
        verify ?E v [1, 2, 3] (drop 10 blob_by_B) = Inl BadSignatureError"
    by code_simp
  have some: "\<exists>v \<in> set [key_A, key_B].
        verify ?E v [1, 2, 3] (drop 10 blob_by_B) = Inr [1, 2, 3]"
    by code_simp
  have A: "verify ?E key_A [1, 2, 3] (drop 10 blob_by_B) \<noteq> Inr [1, 2, 3]" by code_simp
  have B: "verify ?E key_B [1, 2, 3] (drop 10 blob_by_B) = Inr [1, 2, 3]" by code_simp
  from validate_first_verifying_anchor_wins
    [OF decode_signature_by_B example_anchors contract some]
  show ?thesis using A B by simp
qed




text \<open>
  Claim C5, as stated, fails: \<open>validate\<close> has no check of the decoded size. The empty
  envelope decodes without error to zero bytes, far below the 74 bytes of prefix and
  signature; \<open>blob[10:]\<close> is then empty, the anchor list is consulted, and with no
  anchors the outcome is \<open>BadSignatureError\<close>, not a malformed-input error.
\<close>

theorem validate_undersized_not_rejected:
  "b64decode (example_env []) [] = Inr [] \<and>
   validate (example_env []) [] [1, 2, 3] = ([Trying 0], Inl BadSignatureError)"
  by (simp add: validate_def example_env_def py_b64decode_def make_verifiers_def)

text \<open>
  Claim C5, amended. If \<open>b64decode\<close> raises on the envelope, \<open>validate\<close> fails with that
  exception and nothing else has happened: the log is empty, so neither has the anchor
  list been built nor a verification been attempted. An undersized decoded blob is not
  rejected.
\<close>

theorem validate_decode_error_first:
  assumes "b64decode E signature = Inl e"
  shows "validate E signature content = ([], Inl e)"
  using assms by (simp add: validate_def)

theorem validate_decode_error_first_witness:
  "b64decode (example_env example_keys) ''QUI'' = Inl Binascii_Error \<and>
   validate (example_env example_keys) ''QUI'' [1, 2, 3] = ([], Inl Binascii_Error)"
proof -
  have dec: "b64decode (example_env example_keys) ''QUI'' = Inl Binascii_Error"
    by code_simp
  from dec validate_decode_error_first [OF dec] show ?thesis by simp
qed

section \<open>Saving a connection: insert or update\<close>

text \<open>
  Claim C6. Let the import succeed with \<open>new_con\<close>. If nothing is stored (no value, or
  the empty string), or the stored identifier resolves to no connection object, then
  \<open>save_connection\<close> returns without raising, and all it has done besides logging is to
  hand NetworkManager the request to add \<open>new_con\<close>: no object is changed and the store
  is not yet written. When that request completes with the new remote connection
  \<open>added\<close>, \<open>add_connection_callback\<close>, in whatever state \<open>t\<close> it runs, leaves exactly the
  identifier of \<open>added\<close> in the store.
\<close>

theorem save_connection_inserts_when_unresolved:
  assumes imp: "import_ovpn env config private_key certificate = Inr new_con"
    and stale: "stored_uuid s = None \<or> stored_uuid s = Some [] \<or>
                (stored_uuid s = Some uuid \<and> get_connection_by_uuid s uuid = None)"
  shows "save_connection env s config private_key certificate callback =
           Inr (s\<lparr>nm_log := nm_log s @ [(INFO, ''writing configuration to Network Manager''),
                                        (INFO, ''Adding new connection'')],
                  requests := requests s @ [Add_connection new_con callback]\<rparr>)
       \<and> (case add_connection_callback t (Inr added) callback of
            Inl e \<Rightarrow> False
          | Inr t' \<Rightarrow> stored_uuid t' = Some (con_uuid added))"
  using assms
  by (auto simp: save_connection_def add_connection_def add_connection_callback_def
      get_uuid_def set_uuid_def get_connection_by_uuid_def log_line_def call_def Let_def
      split: option.splits)

text \<open>
  The spec's scenario: \<open>X\<close> is stored and resolves to nothing; the add completes with a
  connection whose identifier is \<open>N\<close>, and \<open>N\<close> replaces \<open>X\<close>.
\<close>

theorem save_connection_inserts_when_unresolved_witness:
  "save_connection example_nm_env (nm0\<lparr>stored_uuid := Some ''X''\<rparr>) ''c'' ''k'' ''crt'' (Some 1) =
     Inr (nm0\<lparr>stored_uuid := Some ''X'',
              nm_log := [(INFO, ''writing configuration to Network Manager''),
                         (INFO, ''Adding new connection'')],
              requests := [Add_connection
                \<lparr>con_uuid = ''new'', vpn_data = [(''file'', ''ckcrt'')]\<rparr> (Some 1)]\<rparr>) \<and>
   add_connection_callback (nm0\<lparr>stored_uuid := Some ''X''\<rparr>)
       (Inr \<lparr>con_uuid = ''N'', vpn_data = []\<rparr>) (Some 1) =
     Inr (nm0\<lparr>stored_uuid := Some ''N'',
              nm_log := [(INFO, ''Connection added for uuid: {get_uuid()}'')],
              calls := [(1, [Arg_bool True])]\<rparr>)"
proof -
  let ?s = "nm0\<lparr>stored_uuid := Some ''X''\<rparr>"
  let ?new = "\<lparr>con_uuid = ''new'', vpn_data = [(''file'', ''ckcrt'')]\<rparr>"
  have imp: "import_ovpn example_nm_env ''c'' ''k'' ''crt'' = Inr ?new"
    by (simp add: import_ovpn_def nm_ovpn_import_def example_nm_env_def)
  have stale: "stored_uuid ?s = None \<or> stored_uuid ?s = Some [] \<or>
      (stored_uuid ?s = Some ''X'' \<and> get_connection_by_uuid ?s ''X'' = None)"
    by (simp add: nm0_def get_connection_by_uuid_def)
  from save_connection_inserts_when_unresolved
    [OF imp stale, where callback = "Some 1" and t = ?s
       and added = "\<lparr>con_uuid = ''N'', vpn_data = []\<rparr>"]
  show ?thesis
    by (simp add: nm0_def add_connection_callback_def set_uuid_def log_line_def call_def)
qed

text \<open>
  Claim C7. Let the import succeed with \<open>new_con\<close>. If a non-empty identifier is stored
  and resolves to the connection object \<open>old_con\<close>, then \<open>save_connection\<close> replaces that
  object's settings by those of \<open>new_con\<close> and hands NetworkManager the request to commit
  the object; the store is as before. The completion handler
  \<open>update_connection_callback\<close>, in whatever state \<open>t\<close> it runs, does not write the store
  either.
\<close>

theorem save_connection_updates_when_resolved:
  assumes imp: "import_ovpn env config private_key certificate = Inr new_con"
    and stored: "stored_uuid s = Some uuid" "uuid \<noteq> []"
    and found: "get_connection_by_uuid s uuid = Some old_con"
  shows "save_connection env s config private_key certificate callback =
           Inr (s\<lparr>nm_log := nm_log s @ [(INFO, ''writing configuration to Network Manager''),
                     (INFO, ''Updating existing connection with new configuration'')],
                  connections := (connections s)[old_con := new_con],
                  requests := requests s @ [Commit_changes old_con callback]\<rparr>)
       \<and> (case update_connection_callback t result callback of
            Inl e \<Rightarrow> True
          | Inr t' \<Rightarrow> stored_uuid t' = stored_uuid t)"
  using assms
  by (auto simp: save_connection_def update_connection_def update_connection_callback_def
      get_uuid_def get_connection_by_uuid_def log_line_def call_def Let_def
      split: option.splits sum.splits)

theorem save_connection_updates_when_resolved_witness:
  "save_connection example_nm_env
       (nm0\<lparr>stored_uuid := Some ''X'', connections := [\<lparr>con_uuid = ''X'', vpn_data = []\<rparr>]\<rparr>)
       ''c'' ''k'' ''crt'' (Some 1) =
     Inr (nm0\<lparr>stored_uuid := Some ''X'',
              nm_log := [(INFO, ''writing configuration to Network Manager''),
                         (INFO, ''Updating existing connection with new configuration'')],
              connections := [\<lparr>con_uuid = ''new'', vpn_data = [(''file'', ''ckcrt'')]\<rparr>],
              requests := [Commit_changes 0 (Some 1)]\<rparr>)"
proof -
  let ?s = "nm0\<lparr>stored_uuid := Some ''X'',
                 connections := [\<lparr>con_uuid = ''X'', vpn_data = []\<rparr>]\<rparr>"
  let ?new = "\<lparr>con_uuid = ''new'', vpn_data = [(''file'', ''ckcrt'')]\<rparr>"
  have imp: "import_ovpn example_nm_env ''c'' ''k'' ''crt'' = Inr ?new"
    by (simp add: import_ovpn_def nm_ovpn_import_def example_nm_env_def)
  have stored: "stored_uuid ?s = Some ''X''" by simp
  have nonempty: "''X'' \<noteq> []" by simp
  have found: "get_connection_by_uuid ?s ''X'' = Some 0"
    by (simp add: get_connection_by_uuid_def)
  from save_connection_updates_when_resolved [OF imp stored nonempty found, of "Some 1"]
  show ?thesis by (simp add: nm0_def)
qed

section \<open>Activation, deactivation and the completion callback\<close>

text \<open>
  Claim C2, evaluated where the code departs from it; the callback is \<open>1\<close> throughout.
  \<^item> \<open>deactivate_connection\<close> with no primary connection: the callback has not been
    called, and no request and no idle source is left that could call it later.
  \<^item> \<open>deactivate_connection\<close> with a primary connection \<open>Z\<close> other than \<open>X\<close>: the same.
  \<^item> \<open>activate_connection\<close> for \<open>Y\<close>, unknown at first; NetworkManager then learns of
    \<open>Y\<close> and the idle source runs: the activation request it issues carries no callback,
    and when that activation completes nothing is called.
\<close>

theorem completion_callback_dropped:
  "calls (deactivate_connection nm0 ''X'' (Some 1)) = [] \<and>
   requests (deactivate_connection nm0 ''X'' (Some 1)) = [] \<and>
   idle_sources (deactivate_connection nm0 ''X'' (Some 1)) = [] \<and>
   calls (deactivate_connection (nm0\<lparr>primary_connection := Some (vpn_active ''Z'' 5)\<rparr>)
            ''X'' (Some 1)) = [] \<and>
   requests (deactivate_connection (nm0\<lparr>primary_connection := Some (vpn_active ''Z'' 5)\<rparr>)
            ''X'' (Some 1)) = [] \<and>
   requests (idle_dispatch
      ((activate_connection nm0 ''Y'' (Some 1))
         \<lparr>connections := [\<lparr>con_uuid = ''Y'', vpn_data = []\<rparr>]\<rparr>))
     = [Activate_connection 0 None] \<and>
   calls (activate_connection_callback
      ((idle_dispatch
         ((activate_connection nm0 ''Y'' (Some 1))
            \<lparr>connections := [\<lparr>con_uuid = ''Y'', vpn_data = []\<rparr>]\<rparr>))
        \<lparr>requests := []\<rparr>)
      (Inr (vpn_active ''Y'' 5)) None) = []"
  by (simp add: deactivate_connection_def activate_connection_def idle_dispatch_def
      activate_connection_callback_def get_connection_by_uuid_def get_primary_connection_def
      log_line_def call_def nm0_def vpn_active_def Let_def)

lemma activate_connection_unresolved:
  "get_connection_by_uuid s uuid = None \<Longrightarrow>
   activate_connection s uuid callback =
     s\<lparr>nm_log := nm_log s @ [(INFO, ''activate_connection uuid: {uuid} connection: {con}'')],
       slept_ms := slept_ms s + 100,
       idle_sources := idle_sources s @ [Retry_activate_connection uuid]\<rparr>"
  by (simp add: activate_connection_def log_line_def Let_def)

lemma idle_dispatch_single:
  "idle_sources t = [Retry_activate_connection uuid] \<Longrightarrow>
   idle_dispatch t = activate_connection (t\<lparr>idle_sources := []\<rparr>) uuid None"
  by (simp add: idle_dispatch_def)

text \<open>
  Claim C3, as stated, fails: the retry is the same operation, so a retry that does not
  resolve sleeps and schedules a retry of its own. With \<open>Y\<close> unknown, the first retry
  leaves a second one pending after 200 ms of sleep, and the second leaves a third
  after 300 ms; nothing has become final.
\<close>

theorem activate_retry_is_retried_again:
  "idle_sources (idle_dispatch (activate_connection nm0 ''Y'' (Some 1)))
     = [Retry_activate_connection ''Y''] \<and>
   slept_ms (idle_dispatch (activate_connection nm0 ''Y'' (Some 1))) = 200 \<and>
   idle_sources (idle_dispatch (idle_dispatch (activate_connection nm0 ''Y'' (Some 1))))
     = [Retry_activate_connection ''Y''] \<and>
   slept_ms (idle_dispatch (idle_dispatch (activate_connection nm0 ''Y'' (Some 1)))) = 300"
  by (simp add: activate_connection_def idle_dispatch_def get_connection_by_uuid_def
      log_line_def nm0_def Let_def)

text \<open>
  Claim C3, amended. Let \<open>uuid\<close> resolve to nothing and let no idle source be pending.
  After \<open>activate_connection\<close> and any number \<open>n\<close> of turns of the main loop, with the
  connections as they were, the operation has slept \<open>n + 1\<close> times 100 ms, exactly one
  retry is pending again, no activation has been requested and no callback called:
  each attempt that does not resolve schedules exactly one more, without end.
\<close>

theorem activate_unresolved_keeps_retrying:
  assumes unresolved: "get_connection_by_uuid s uuid = None"
    and quiet: "idle_sources s = []"
  shows "idle_sources ((idle_dispatch ^^ n) (activate_connection s uuid callback))
           = [Retry_activate_connection uuid]
       \<and> slept_ms ((idle_dispatch ^^ n) (activate_connection s uuid callback))
           = slept_ms s + 100 * (n + 1)
       \<and> requests ((idle_dispatch ^^ n) (activate_connection s uuid callback)) = requests s
       \<and> calls ((idle_dispatch ^^ n) (activate_connection s uuid callback)) = calls s
       \<and> connections ((idle_dispatch ^^ n) (activate_connection s uuid callback))
           = connections s"
proof (induction n)
  case 0
  show ?case using unresolved quiet by (simp add: activate_connection_unresolved)
next
  case (Suc n)
  let ?t = "(idle_dispatch ^^ n) (activate_connection s uuid callback)"
  from Suc.IH unresolved
  have still: "get_connection_by_uuid (?t\<lparr>idle_sources := []\<rparr>) uuid = None"
    by (simp add: get_connection_by_uuid_def)
  from Suc.IH
  have "idle_dispatch ?t = activate_connection (?t\<lparr>idle_sources := []\<rparr>) uuid None"
    by (simp add: idle_dispatch_single)
  then show ?case
    using Suc.IH by (simp add: activate_connection_unresolved [OF still])
qed

theorem activate_unresolved_keeps_retrying_witness:
  "idle_sources ((idle_dispatch ^^ 5) (activate_connection nm0 ''Y'' (Some 1)))
           = [Retry_activate_connection ''Y'']
       \<and> slept_ms ((idle_dispatch ^^ 5) (activate_connection nm0 ''Y'' (Some 1))) = 600
       \<and> requests ((idle_dispatch ^^ 5) (activate_connection nm0 ''Y'' (Some 1))) = []
       \<and> calls ((idle_dispatch ^^ 5) (activate_connection nm0 ''Y'' (Some 1))) = []"
proof -
  have unresolved: "get_connection_by_uuid nm0 ''Y'' = None"
    by (simp add: get_connection_by_uuid_def nm0_def)
  have quiet: "idle_sources nm0 = []" by (simp add: nm0_def)
  from activate_unresolved_keeps_retrying [OF unresolved quiet, of 5 "Some 1"]
  show ?thesis by (simp add: nm0_def)
qed

text \<open>
  Claim C8. If there is no primary connection, or the primary connection's identifier
  differs from \<open>uuid\<close>, then \<open>deactivate_connection\<close> changes nothing but the log: the
  requests handed to NetworkManager, the stored identifier, the connection objects, the
  active connections and the calls made are those of the state before. The log gains
  the debug line and, with no primary connection, the line that says so.
\<close>

theorem deactivate_connection_noop:
  assumes "primary_connection s = None \<or>
           (\<exists>c. primary_connection s = Some c \<and> ac_uuid c \<noteq> uuid)"
  shows "deactivate_connection s uuid callback =
     s\<lparr>nm_log := nm_log s
          @ (DEBUG, ''deactivate_connection uuid: {uuid} connection: {con}'')
          # (if primary_connection s = None
             then [(INFO, ''No active connection to deactivate'')] else [])\<rparr>"
  using assms
  by (auto simp: deactivate_connection_def get_primary_connection_def log_line_def Let_def)

theorem deactivate_connection_noop_witness:
  "deactivate_connection nm0 ''X'' (Some 1) =
     nm0\<lparr>nm_log := [(DEBUG, ''deactivate_connection uuid: {uuid} connection: {con}''),
                     (INFO, ''No active connection to deactivate'')]\<rparr> \<and>
   deactivate_connection (nm0\<lparr>primary_connection := Some (vpn_active ''Z'' 5)\<rparr>)
       ''X'' (Some 1) =
     nm0\<lparr>primary_connection := Some (vpn_active ''Z'' 5),
         nm_log := [(DEBUG, ''deactivate_connection uuid: {uuid} connection: {con}'')]\<rparr>"
proof -
  let ?other = "nm0\<lparr>primary_connection := Some (vpn_active ''Z'' 5)\<rparr>"
  have none: "primary_connection nm0 = None \<or>
      (\<exists>c. primary_connection nm0 = Some c \<and> ac_uuid c \<noteq> ''X'')"
    by (simp add: nm0_def)
  have other: "primary_connection ?other = None \<or>
      (\<exists>c. primary_connection ?other = Some c \<and> ac_uuid c \<noteq> ''X'')"
    by (simp add: vpn_active_def)
  from deactivate_connection_noop [OF none, of "Some 1"]
    deactivate_connection_noop [OF other, of "Some 1"]
  show ?thesis by (simp add: nm0_def)
qed

section \<open>Observing the state\<close>

lemma report_active_calls:
  "calls (report_active active callback s) =
     calls s @ [(callback,
       [Arg_enum (case find ac_vpn active of
                    Some a \<Rightarrow> VpnConnectionStateReason (ac_vpn_state a)
                  | None \<Rightarrow> VpnConnectionState_DISCONNECTED),
        Arg_enum VpnConnectionStateReason_NONE])]"
  by (induction active) (simp_all add: call_def log_line_def)

text \<open>
  Claim C9, as stated, fails for more than one VPN: with two VPN-typed active
  connections, in raw states 5 and 3, the callback receives the first one's raw state 5
  and not \<open>DISCONNECTED\<close>, whose number is 7.
\<close>

theorem init_dbus_system_bus_two_vpns:
  "length (filter ac_vpn [vpn_active ''a'' 5, vpn_active ''b'' 3]) = 2 \<and>
   calls (init_dbus_system_bus
            (nm0\<lparr>active_connections := [vpn_active ''a'' 5, vpn_active ''b'' 3]\<rparr>) 1)
     = [(1, [Arg_enum (VpnConnectionStateReason 5), Arg_enum (VpnConnectionStateReason 1)])] \<and>
   VpnConnectionState_DISCONNECTED = VpnConnectionState 7"
  by (simp add: init_dbus_system_bus_def nm0_def vpn_active_def call_def log_line_def
      VpnConnectionStateReason_NONE_def VpnConnectionState_DISCONNECTED_def)

text \<open>
  Claim C9, amended. \<open>init_dbus_system_bus\<close> goes through the active connections once
  and calls the callback exactly once before it returns: with the raw state of the
  first VPN-typed active connection when there is one (the only one, or the first of
  several), and with \<open>DISCONNECTED\<close> when there is none. The raw state travels as the
  number inside \<open>NM.VpnConnectionStateReason(raw)\<close>, which is how the source wraps it.
\<close>

theorem init_dbus_system_bus_reports_first_vpn:
  "calls (init_dbus_system_bus s callback) =
     calls s @ [(callback,
       [Arg_enum (case find ac_vpn (active_connections s) of
                    Some a \<Rightarrow> VpnConnectionStateReason (ac_vpn_state a)
                  | None \<Rightarrow> VpnConnectionState_DISCONNECTED),
        Arg_enum VpnConnectionStateReason_NONE])]"
  by (simp add: init_dbus_system_bus_def report_active_calls)

text \<open>
  Claim C10. Whenever the number of VPN-typed active connections is not exactly one,
  \<open>get_vpn_status\<close> returns \<open>(UNKNOWN, UNKNOWN)\<close>. The result is the same for none and
  for several; the warning is logged for several only.
\<close>

theorem get_vpn_status_unknown_unless_one:
  assumes "length (filter ac_vpn (active_connections s)) \<noteq> 1"
  shows "get_vpn_status s =
    (if 1 < length (filter ac_vpn (active_connections s))
     then log_line WARNING ''more than one VPN connection active'' s else s,
     (VpnConnectionState_UNKNOWN, VpnConnectionStateReason_UNKNOWN))"
proof -
  from assms have "filter ac_vpn (active_connections s) = [] \<or>
      1 < length (filter ac_vpn (active_connections s))"
    by (cases "filter ac_vpn (active_connections s)") auto
  then show ?thesis
    by (auto simp: get_vpn_status_def Let_def)
qed

theorem get_vpn_status_unknown_unless_one_witness:
  "get_vpn_status (nm0\<lparr>active_connections := [vpn_active ''a'' 5, vpn_active ''b'' 3]\<rparr>) =
     (log_line WARNING ''more than one VPN connection active''
        (nm0\<lparr>active_connections := [vpn_active ''a'' 5, vpn_active ''b'' 3]\<rparr>),
      (VpnConnectionState_UNKNOWN, VpnConnectionStateReason_UNKNOWN)) \<and>
   get_vpn_status nm0 = (nm0, (VpnConnectionState_UNKNOWN, VpnConnectionStateReason_UNKNOWN))"
proof -
  let ?two = "nm0\<lparr>active_connections := [vpn_active ''a'' 5, vpn_active ''b'' 3]\<rparr>"
  have two: "length (filter ac_vpn (active_connections ?two)) \<noteq> 1"
    by (simp add: vpn_active_def)
  have zero: "length (filter ac_vpn (active_connections nm0)) \<noteq> 1"
    by (simp add: nm0_def)
  from get_vpn_status_unknown_unless_one [OF two] get_vpn_status_unknown_unless_one [OF zero]
  show ?thesis by (simp add: vpn_active_def nm0_def)
qed

end
